theory Spec2Isabelle
  imports Main "HOL-Library.AList" "HOL-Library.Sublist"
begin

section \<open>Python values and library behaviour used by the scripts\<close>

text \<open>
  The scripts under \<^verbatim>\<open>src/scripts\<close> work on three kinds of data: JSON documents
  (the persisted state), the project directory on disk, and lines typed by the operator.
  Exceptions are values: a function that can raise returns \<open>py_error + 'a\<close>, with
  \<open>Inl\<close> the exception.
\<close>

datatype py_error =
    JSONDecodeError | IsADirectoryError | NotADirectoryError | FileNotFoundError
  | FileExistsError | AttributeError | TypeError | IndexError | KeyError | ValueError
  | NotImplementedError | EOFError | KeyboardInterrupt

datatype json =
    JNull | JBool bool | JInt int | JStr string | JArr "json list"
  | JObj "(string \<times> json) list"

text \<open>A directory tree: a regular file with its text, or a directory with named entries.\<close>

datatype node = File string | Dir "(string \<times> node) list"

text \<open>
  What the scripts take from outside the repository: the \<^verbatim>\<open>json\<close> module
  (\<open>json_load\<close> is \<open>None\<close> where \<^verbatim>\<open>json.load\<close> raises JSONDecodeError), the
  child processes started with \<^verbatim>\<open>subprocess.run\<close> (what they do to the project tree
  and to the lines waiting on standard input, and their return code), the clock
  (\<open>utc_now n\<close> is the text of the n-th \<^verbatim>\<open>datetime.now(timezone.utc).isoformat()\<close>)
  and the texts of \<^verbatim>\<open>sys.executable\<close>, \<^verbatim>\<open>REPO_ROOT\<close> and the resolved project
  directory.
\<close>

record env =
  json_load :: "string \<Rightarrow> json option"
  json_dump :: "json \<Rightarrow> string"
  subprocess_run :: "string list \<Rightarrow> node \<times> string list \<Rightarrow> (node \<times> string list) \<times> int"
  utc_now :: "nat \<Rightarrow> string"
  sys_executable :: string
  repo_root :: string
  project_path :: string

subsection \<open>Strings\<close>

text \<open>\<^verbatim>\<open>s.lower()\<close>, on the ASCII letters.\<close>

definition lower_char :: "char \<Rightarrow> char" where
  "lower_char c =
     (case map_of (zip ''ABCDEFGHIJKLMNOPQRSTUVWXYZ'' ''abcdefghijklmnopqrstuvwxyz'') c of
        None \<Rightarrow> c | Some l \<Rightarrow> l)"

definition lower :: "string \<Rightarrow> string" where
  "lower s = map lower_char s"

text \<open>\<^verbatim>\<open>a in b\<close> on two strings: \<open>a\<close> occurs in \<open>b\<close> as a contiguous piece.\<close>

definition str_in :: "string \<Rightarrow> string \<Rightarrow> bool" where
  "str_in a b = sublist a b"

definition is_space :: "char \<Rightarrow> bool" where
  "is_space c = (c = CHR '' '' \<or> c = CHR 0x09 \<or> c = CHR 0x0A \<or> c = CHR 0x0B
                 \<or> c = CHR 0x0C \<or> c = CHR 0x0D)"

definition strip :: "string \<Rightarrow> string" where
  "strip s = rev (dropWhile is_space (rev (dropWhile is_space s)))"

text \<open>Lazy \<^verbatim>\<open>any(f(x) for x in xs)\<close>: stops at the first true element or the first raise.\<close>

fun py_any :: "('a \<Rightarrow> py_error + bool) \<Rightarrow> 'a list \<Rightarrow> py_error + bool" where
  "py_any f [] = Inr False"
| "py_any f (x # xs) =
     (case f x of Inl e \<Rightarrow> Inl e | Inr True \<Rightarrow> Inr True | Inr False \<Rightarrow> py_any f xs)"

subsection \<open>Paths and the directory tree\<close>

text \<open>
  \<^verbatim>\<open>project_dir / "docs/prd.md"\<close>: the components of a relative path. Empty components
  and \<^verbatim>\<open>.\<close> are dropped, as pathlib does.
\<close>

fun split_on :: "char \<Rightarrow> string \<Rightarrow> string \<Rightarrow> string list" where
  "split_on d acc [] = [rev acc]"
| "split_on d acc (c # cs) =
     (if c = d then rev acc # split_on d [] cs else split_on d (c # acc) cs)"

definition path_parts :: "string \<Rightarrow> string list" where
  "path_parts p = filter (\<lambda>s. s \<noteq> [] \<and> s \<noteq> ''.'') (split_on CHR ''/'' [] p)"

fun lookup :: "node \<Rightarrow> string list \<Rightarrow> node option" where
  "lookup n [] = Some n"
| "lookup (File t) (c # cs) = None"
| "lookup (Dir es) (c # cs) =
     (case map_of es c of None \<Rightarrow> None | Some n \<Rightarrow> lookup n cs)"

definition path_exists :: "node \<Rightarrow> string list \<Rightarrow> bool" where
  "path_exists pd p = (lookup pd p \<noteq> None)"

definition path_is_dir :: "node \<Rightarrow> string list \<Rightarrow> bool" where
  "path_is_dir pd p = (case lookup pd p of Some (Dir es) \<Rightarrow> True | _ \<Rightarrow> False)"

definition read_text :: "node \<Rightarrow> string list \<Rightarrow> py_error + string" where
  "read_text pd p =
     (case lookup pd p of
        None \<Rightarrow> Inl FileNotFoundError
      | Some (Dir es) \<Rightarrow> Inl IsADirectoryError
      | Some (File t) \<Rightarrow> Inr t)"

text \<open>Every entry below a directory, with its path relative to that directory.\<close>

fun descendants :: "string list \<Rightarrow> node \<Rightarrow> (string list \<times> node) list" where
  "descendants p (File t) = []"
| "descendants p (Dir es) =
     concat (map (\<lambda>ne. (p @ [fst ne], snd ne) # descendants (p @ [fst ne]) (snd ne)) es)"

text \<open>
  One path component against one pattern component: \<^verbatim>\<open>*\<close> is any run of characters,
  \<^verbatim>\<open>?\<close> any one character, every other character itself (case-sensitive, and a
  leading dot is not special, as in pathlib). The criteria table uses no other pattern
  syntax.
\<close>

fun fnmatch :: "string \<Rightarrow> string \<Rightarrow> bool" where
  "fnmatch [] [] = True"
| "fnmatch (c # cs) [] = False"
| "fnmatch [] (p # ps) = (p = CHR ''*'' \<and> fnmatch [] ps)"
| "fnmatch (c # cs) (p # ps) =
     (if p = CHR ''*'' then (if fnmatch (c # cs) ps then True else fnmatch cs (p # ps))
      else (p = CHR ''?'' \<or> p = c) \<and> fnmatch cs ps)"

text \<open>
  \<^verbatim>\<open>project_dir.rglob(pattern)\<close>: the entries at any depth whose last path components
  match the pattern's components one by one. A pattern that starts with \<^verbatim>\<open>/\<close> is
  refused by pathlib; a pattern with no component selects the directory itself and
  every directory below it.
\<close>

definition is_Dir :: "node \<Rightarrow> bool" where
  "is_Dir n = (case n of Dir es \<Rightarrow> True | File t \<Rightarrow> False)"

definition rglob :: "node \<Rightarrow> string \<Rightarrow> py_error + (string list \<times> node) list" where
  "rglob pd pattern =
     (if pattern \<noteq> [] \<and> hd pattern = CHR ''/'' then Inl NotImplementedError
      else let segs = path_parts pattern; k = length segs in
        if segs = [] then Inr (([], pd) # filter (\<lambda>(p, n). is_Dir n) (descendants [] pd))
        else Inr (filter (\<lambda>(p, n). k \<le> length p \<and>
                      list_all2 fnmatch (drop (length p - k) p) segs)
               (descendants [] pd)))"

subsection \<open>JSON values as Python objects\<close>

definition py_truthy :: "json \<Rightarrow> bool" where
  "py_truthy j =
     (case j of JNull \<Rightarrow> False | JBool b \<Rightarrow> b | JInt i \<Rightarrow> i \<noteq> 0 | JStr s \<Rightarrow> s \<noteq> []
      | JArr xs \<Rightarrow> xs \<noteq> [] | JObj kvs \<Rightarrow> kvs \<noteq> [])"

text \<open>\<^verbatim>\<open>d.get(k, default)\<close>: only a dict has the method.\<close>

definition py_get :: "json \<Rightarrow> string \<Rightarrow> json \<Rightarrow> py_error + json" where
  "py_get d k dflt =
     (case d of
        JObj kvs \<Rightarrow> (case map_of kvs k of None \<Rightarrow> Inr dflt | Some v \<Rightarrow> Inr v)
      | _ \<Rightarrow> Inl AttributeError)"

text \<open>\<^verbatim>\<open>for x in v\<close>: a list gives its items, a string its characters, a dict its keys.\<close>

definition py_iter :: "json \<Rightarrow> py_error + json list" where
  "py_iter v =
     (case v of
        JArr xs \<Rightarrow> Inr xs
      | JStr s \<Rightarrow> Inr (map (\<lambda>c. JStr [c]) s)
      | JObj kvs \<Rightarrow> Inr (map (\<lambda>kv. JStr (fst kv)) kvs)
      | _ \<Rightarrow> Inl TypeError)"

section \<open>gate\_validator.py\<close>

definition PHASE_ORDER :: "string list" where
  "PHASE_ORDER = [''requirements'', ''development'', ''cicd'', ''testing'', ''uat'',
                  ''deployment'', ''monitoring'']"

text \<open>
  A criterion is a tuple \<^verbatim>\<open>(description, checker_name, *args)\<close>; an argument is a
  string or a list of strings.
\<close>

datatype arg = Str string | StrList "string list"

record criterion =
  description :: string
  checker_name :: string
  checker_args :: "arg list"

definition crit :: "string \<Rightarrow> string \<Rightarrow> arg list \<Rightarrow> criterion" where
  "crit d c as = \<lparr>description = d, checker_name = c, checker_args = as\<rparr>"

definition GATE_CRITERIA :: "(string \<times> criterion list) list" where
  "GATE_CRITERIA = [
    (''requirements'', [
      crit ''PRD document exists'' ''check_file'' [Str ''docs/prd.md''],
      crit ''User stories defined'' ''check_file_pattern'' [Str ''docs/user-stories*''],
      crit ''Acceptance criteria present in PRD'' ''check_content''
        [Str ''docs/prd.md'', Str ''acceptance criteria''],
      crit ''Technical feasibility assessed'' ''check_file_pattern''
        [Str ''docs/tech-feasibility*''],
      crit ''Stakeholder sign-off recorded'' ''check_state_note''
        [Str ''requirements'', Str ''sign-off'']]),
    (''development'', [
      crit ''Git repository initialized'' ''check_dir'' [Str ''.git''],
      crit ''Branching strategy documented'' ''check_file_pattern'' [Str ''*git*workflow*''],
      crit ''Pre-commit hooks configured'' ''check_file'' [Str ''.pre-commit-config.yaml''],
      crit ''README exists'' ''check_file'' [Str ''README.md''],
      crit ''Code review process defined'' ''check_state_note''
        [Str ''development'', Str ''code review'']]),
    (''cicd'', [
      crit ''CI pipeline config exists'' ''check_any_file''
        [StrList [''.github/workflows/*.yml'', ''.github/workflows/*.yaml'',
                  ''.gitlab-ci.yml'', ''Jenkinsfile'']],
      crit ''Build step defined'' ''check_state_note'' [Str ''cicd'', Str ''build''],
      crit ''Test step in pipeline'' ''check_state_note'' [Str ''cicd'', Str ''test''],
      crit ''Linting configured'' ''check_any_file''
        [StrList [''.eslintrc*'', ''.flake8'', ''pyproject.toml'', ''.prettierrc*'']],
      crit ''Pipeline tested end-to-end'' ''check_state_note'' [Str ''cicd'', Str ''verified'']]),
    (''testing'', [
      crit ''Unit tests exist'' ''check_file_pattern'' [Str ''*test*''],
      crit ''Test coverage report generated'' ''check_any_file''
        [StrList [''coverage/*'', ''htmlcov/*'', ''.coverage'']],
      crit ''Coverage meets threshold (>80%)'' ''check_state_note''
        [Str ''testing'', Str ''coverage''],
      crit ''Critical bugs resolved'' ''check_state_note''
        [Str ''testing'', Str ''bugs resolved''],
      crit ''Test plan documented'' ''check_file_pattern'' [Str ''docs/test-plan*'']]),
    (''uat'', [
      crit ''UAT plan created'' ''check_file_pattern'' [Str ''docs/uat*''],
      crit ''UAT environment available'' ''check_state_note'' [Str ''uat'', Str ''environment''],
      crit ''All UAT cases executed'' ''check_state_note'' [Str ''uat'', Str ''executed''],
      crit ''Stakeholder sign-off obtained'' ''check_state_note'' [Str ''uat'', Str ''sign-off'']]),
    (''deployment'', [
      crit ''Deployment runbook exists'' ''check_file_pattern'' [Str ''docs/deployment*''],
      crit ''Rollback procedure documented'' ''check_file_pattern'' [Str ''docs/rollback*''],
      crit ''Smoke tests defined'' ''check_file_pattern'' [Str ''*smoke*''],
      crit ''Deployment strategy chosen'' ''check_state_note''
        [Str ''deployment'', Str ''strategy''],
      crit ''Pre-deployment checklist complete'' ''check_state_note''
        [Str ''deployment'', Str ''checklist'']]),
    (''monitoring'', [
      crit ''Monitoring configured'' ''check_state_note''
        [Str ''monitoring'', Str ''configured''],
      crit ''Alerts defined'' ''check_file_pattern'' [Str ''*alert*''],
      crit ''SLOs documented'' ''check_file_pattern'' [Str ''docs/slo*''],
      crit ''Incident response plan exists'' ''check_file_pattern'' [Str ''docs/incident*''],
      crit ''Dashboard created'' ''check_state_note'' [Str ''monitoring'', Str ''dashboard'']])]"

text \<open>
  \<^verbatim>\<open>load_state\<close>: \<open>JNull\<close> is Python's \<^verbatim>\<open>None\<close>, returned when the state file is
  absent (and also what \<^verbatim>\<open>json.load\<close> gives for the document \<^verbatim>\<open>null\<close>).
\<close>

definition state_path :: "string list" where
  "state_path = [''.sdlc'', ''state.json'']"

definition load_state :: "env \<Rightarrow> node \<Rightarrow> py_error + json" where
  "load_state E project_dir =
     (if \<not> path_exists project_dir state_path then Inr JNull
      else (case read_text project_dir state_path of
              Inl e \<Rightarrow> Inl e
            | Inr t \<Rightarrow> (case json_load E t of None \<Rightarrow> Inl JSONDecodeError | Some j \<Rightarrow> Inr j)))"

definition check_file :: "node \<Rightarrow> string \<Rightarrow> bool" where
  "check_file project_dir filepath = path_exists project_dir (path_parts filepath)"

definition check_dir :: "node \<Rightarrow> string \<Rightarrow> bool" where
  "check_dir project_dir dirpath = path_is_dir project_dir (path_parts dirpath)"

definition check_file_pattern :: "node \<Rightarrow> string \<Rightarrow> py_error + bool" where
  "check_file_pattern project_dir pattern =
     (case rglob project_dir pattern of Inl e \<Rightarrow> Inl e | Inr ms \<Rightarrow> Inr (length ms > 0))"

definition check_any_file :: "node \<Rightarrow> string list \<Rightarrow> py_error + bool" where
  "check_any_file project_dir patterns = py_any (check_file_pattern project_dir) patterns"

definition check_content :: "node \<Rightarrow> string \<Rightarrow> string \<Rightarrow> py_error + bool" where
  "check_content project_dir filepath keyword =
     (let target = path_parts filepath in
      if \<not> path_exists project_dir target then Inr False
      else (case read_text project_dir target of
              Inl e \<Rightarrow> Inl e
            | Inr t \<Rightarrow> Inr (str_in (lower keyword) (lower t))))"

definition note_has :: "string \<Rightarrow> json \<Rightarrow> py_error + bool" where
  "note_has keyword note =
     (case note of JStr t \<Rightarrow> Inr (str_in (lower keyword) (lower t)) | _ \<Rightarrow> Inl AttributeError)"

definition check_state_note :: "env \<Rightarrow> node \<Rightarrow> string \<Rightarrow> string \<Rightarrow> py_error + bool" where
  "check_state_note E project_dir phase keyword =
     (case load_state E project_dir of
        Inl e \<Rightarrow> Inl e
      | Inr state \<Rightarrow>
          (if \<not> py_truthy state then Inr False
           else (case py_get state ''phases'' (JObj []) of
             Inl e \<Rightarrow> Inl e
           | Inr phases \<Rightarrow>
              (case py_get phases phase (JObj []) of
                 Inl e \<Rightarrow> Inl e
               | Inr phase_data \<Rightarrow>
                  (case py_get phase_data ''notes'' (JArr []) of
                     Inl e \<Rightarrow> Inl e
                   | Inr notes \<Rightarrow>
                      (case py_iter notes of
                         Inl e \<Rightarrow> Inl e
                       | Inr ns \<Rightarrow> py_any (note_has keyword) ns))))))"

text \<open>
  The table \<^verbatim>\<open>CHECKERS\<close>: each entry takes the project directory and the argument
  tuple. \<^verbatim>\<open>args[i]\<close> raises IndexError past the end. The checkers are typed as
  their signatures declare: a list where a checker expects a string is reported as
  TypeError at the call, and a string given to \<^verbatim>\<open>check_any_file\<close> is iterated
  character by character.
\<close>

definition arg_at :: "arg list \<Rightarrow> nat \<Rightarrow> py_error + arg" where
  "arg_at args i = (if i < length args then Inr (args ! i) else Inl IndexError)"

definition str_arg :: "arg list \<Rightarrow> nat \<Rightarrow> py_error + string" where
  "str_arg args i =
     (case arg_at args i of
        Inl e \<Rightarrow> Inl e
      | Inr (Str s) \<Rightarrow> Inr s
      | Inr (StrList ss) \<Rightarrow> Inl TypeError)"

definition CHECKERS :: "string \<Rightarrow> (env \<Rightarrow> node \<Rightarrow> arg list \<Rightarrow> py_error + bool) option" where
  "CHECKERS name =
     (if name = ''check_file'' then
        Some (\<lambda>E pd args. case str_arg args 0 of Inl e \<Rightarrow> Inl e | Inr s \<Rightarrow> Inr (check_file pd s))
      else if name = ''check_dir'' then
        Some (\<lambda>E pd args. case str_arg args 0 of Inl e \<Rightarrow> Inl e | Inr s \<Rightarrow> Inr (check_dir pd s))
      else if name = ''check_file_pattern'' then
        Some (\<lambda>E pd args. case str_arg args 0 of Inl e \<Rightarrow> Inl e | Inr s \<Rightarrow> check_file_pattern pd s)
      else if name = ''check_any_file'' then
        Some (\<lambda>E pd args. case arg_at args 0 of
                Inl e \<Rightarrow> Inl e
              | Inr (StrList ps) \<Rightarrow> check_any_file pd ps
              | Inr (Str s) \<Rightarrow> check_any_file pd (map (\<lambda>c. [c]) s))
      else if name = ''check_content'' then
        Some (\<lambda>E pd args. case str_arg args 0 of
                Inl e \<Rightarrow> Inl e
              | Inr f \<Rightarrow> (case str_arg args 1 of Inl e \<Rightarrow> Inl e | Inr k \<Rightarrow> check_content pd f k))
      else if name = ''check_state_note'' then
        Some (\<lambda>E pd args. case str_arg args 0 of
                Inl e \<Rightarrow> Inl e
              | Inr p \<Rightarrow> (case str_arg args 1 of Inl e \<Rightarrow> Inl e | Inr k \<Rightarrow> check_state_note E pd p k))
      else None)"

text \<open>
  One turn of the loop of \<^verbatim>\<open>validate_phase\<close>: \<^verbatim>\<open>checker and checker(...)\<close> is false
  for a name the table does not have, without calling anything.
\<close>

definition run_criterion :: "env \<Rightarrow> node \<Rightarrow> criterion \<Rightarrow> py_error + bool" where
  "run_criterion E project_dir c =
     (case CHECKERS (checker_name c) of
        None \<Rightarrow> Inr False
      | Some checker \<Rightarrow> checker E project_dir (checker_args c))"

fun validate_criteria ::
  "env \<Rightarrow> node \<Rightarrow> criterion list \<Rightarrow> string list \<Rightarrow> string list
     \<Rightarrow> py_error + (string list \<times> string list)" where
  "validate_criteria E project_dir [] passed failed = Inr (passed, failed)"
| "validate_criteria E project_dir (c # cs) passed failed =
     (case run_criterion E project_dir c of
        Inl e \<Rightarrow> Inl e
      | Inr True \<Rightarrow> validate_criteria E project_dir cs (passed @ [description c]) failed
      | Inr False \<Rightarrow> validate_criteria E project_dir cs passed (failed @ [description c]))"

text \<open>
  \<^verbatim>\<open>validate_phase\<close> reads the module's table; \<open>validate_phase_with\<close> is the same
  function with the table as an argument (\<^verbatim>\<open>table.get(phase, [])\<close>).
\<close>

definition criteria_of :: "(string \<times> criterion list) list \<Rightarrow> string \<Rightarrow> criterion list" where
  "criteria_of table phase = (case map_of table phase of None \<Rightarrow> [] | Some cs \<Rightarrow> cs)"

definition validate_phase_with ::
  "(string \<times> criterion list) list \<Rightarrow> env \<Rightarrow> string \<Rightarrow> node
     \<Rightarrow> py_error + (string list \<times> string list)" where
  "validate_phase_with table E phase project_dir =
     validate_criteria E project_dir (criteria_of table phase) [] []"

definition validate_phase :: "env \<Rightarrow> string \<Rightarrow> node \<Rightarrow> py_error + (string list \<times> string list)" where
  "validate_phase E phase project_dir = validate_phase_with GATE_CRITERIA E phase project_dir"



text \<open>
  \<^verbatim>\<open>main\<close>: the parsed command line, then the loop over the phases to check. The
  result is the exit code given to \<^verbatim>\<open>sys.exit\<close> with \<^verbatim>\<open>all_results\<close>; argparse exits
  with code 2 on a phase outside its choices or when neither option is given.
\<close>

record gv_args =
  phase_opt :: "string option"
  all_opt :: bool
  json_output :: bool

definition phases_to_check :: "gv_args \<Rightarrow> string list" where
  "phases_to_check a = (if all_opt a then PHASE_ORDER else [the (phase_opt a)])"

fun gate_loop ::
  "env \<Rightarrow> node \<Rightarrow> string list \<Rightarrow> (string \<times> string list \<times> string list) list \<Rightarrow> bool
     \<Rightarrow> py_error + (int \<times> (string \<times> string list \<times> string list) list)" where
  "gate_loop E project_dir [] all_results overall_pass =
     Inr (if overall_pass then 0 else 1, all_results)"
| "gate_loop E project_dir (phase # rest) all_results overall_pass =
     (case validate_phase E phase project_dir of
        Inl e \<Rightarrow> Inl e
      | Inr (passed, failed) \<Rightarrow>
          gate_loop E project_dir rest (AList.update phase (passed, failed) all_results)
            (if failed \<noteq> [] then False else overall_pass))"

definition args_ok :: "gv_args \<Rightarrow> bool" where
  "args_ok a = ((case phase_opt a of None \<Rightarrow> True | Some p \<Rightarrow> p \<in> set PHASE_ORDER)
               \<and> (phase_opt a \<noteq> None \<or> all_opt a))"

definition gate_main ::
  "env \<Rightarrow> gv_args \<Rightarrow> node
     \<Rightarrow> py_error + (int \<times> (string \<times> string list \<times> string list) list)" where
  "gate_main E a project_dir =
     (if \<not> args_ok a then Inr (2, [])
      else gate_loop E project_dir (phases_to_check a) [] True)"

text \<open>
  The exit status the calling process sees: an exception that leaves \<^verbatim>\<open>main\<close> ends
  the interpreter with status 1.
\<close>

definition exit_status :: "py_error + (int \<times> 'a) \<Rightarrow> int" where
  "exit_status r = (case r of Inl e \<Rightarrow> 1 | Inr (code, out) \<Rightarrow> code)"

section \<open>Writing to the directory tree\<close>

text \<open>\<^verbatim>\<open>open(path, "w")\<close> followed by a write: the parent must be a directory.\<close>

fun write_text :: "string list \<Rightarrow> string \<Rightarrow> node \<Rightarrow> py_error + node" where
  "write_text [] t n = Inl IsADirectoryError"
| "write_text (c # cs) t (File u) = Inl NotADirectoryError"
| "write_text [c] t (Dir es) =
     (case map_of es c of
        Some (Dir ds) \<Rightarrow> Inl IsADirectoryError
      | _ \<Rightarrow> Inr (Dir (AList.update c (File t) es)))"
| "write_text (c # d # ds) t (Dir es) =
     (case map_of es c of
        None \<Rightarrow> Inl FileNotFoundError
      | Some n \<Rightarrow>
         (case write_text (d # ds) t n of
            Inl e \<Rightarrow> Inl e
          | Inr n' \<Rightarrow> Inr (Dir (AList.update c n' es))))"

text \<open>\<^verbatim>\<open>path.mkdir(parents=parents, exist_ok=True)\<close>.\<close>

fun mkdir :: "bool \<Rightarrow> string list \<Rightarrow> node \<Rightarrow> py_error + node" where
  "mkdir parents [] (Dir es) = Inr (Dir es)"
| "mkdir parents [] (File t) = Inl FileExistsError"
| "mkdir parents (c # cs) (File t) = Inl NotADirectoryError"
| "mkdir parents (c # cs) (Dir es) =
     (case map_of es c of
        Some n \<Rightarrow>
         (case mkdir parents cs n of
            Inl e \<Rightarrow> Inl e
          | Inr n' \<Rightarrow> Inr (Dir (AList.update c n' es)))
      | None \<Rightarrow>
         (if cs = [] \<or> parents
          then (case mkdir parents cs (Dir []) of
                  Inl e \<Rightarrow> Inl e
                | Inr n' \<Rightarrow> Inr (Dir (AList.update c n' es)))
          else Inl FileNotFoundError))"

section \<open>init\_sdlc.py\<close>

definition PHASES :: "(string \<times> string \<times> nat) list" where
  "PHASES = [
     (''requirements'', ''Requirements & Planning'', 1),
     (''development'', ''Development & Git'', 2),
     (''cicd'', ''CI/CD Pipeline'', 3),
     (''testing'', ''QA Testing'', 4),
     (''uat'', ''User Acceptance Testing'', 5),
     (''deployment'', ''Production Deployment'', 6),
     (''monitoring'', ''Monitoring & SRE'', 7)]"

definition TEMPLATE_MAP :: "(string \<times> string) list" where
  "TEMPLATE_MAP = [
     (''react-vite'', ''react-typescript-vite''),
     (''react-typescript-vite'', ''react-typescript-vite''),
     (''fastapi'', ''python-fastapi''),
     (''python-fastapi'', ''python-fastapi''),
     (''nextjs'', ''nextjs-typescript''),
     (''nextjs-typescript'', ''nextjs-typescript'')]"

definition pending_record :: json where
  "pending_record = JObj [
     (''status'', JStr ''pending''),
     (''started_at'', JNull),
     (''completed_at'', JNull),
     (''gate_passed'', JBool False),
     (''notes'', JArr [])]"

definition create_state :: "string \<Rightarrow> string \<Rightarrow> json" where
  "create_state project_name now = JObj [
     (''project_name'', JStr project_name),
     (''created_at'', JStr now),
     (''updated_at'', JStr now),
     (''current_phase'', JStr ''requirements''),
     (''phases'', JObj (map (\<lambda>phase. (fst phase, pending_record)) PHASES))]"

definition checklists :: "(string \<times> string list) list" where
  "checklists = [
     (''requirements'', [
        ''Define project vision and goals'',
        ''Identify stakeholders'',
        ''Write PRD (Product Requirements Document)'',
        ''Create user stories with acceptance criteria'',
        ''Assess technical feasibility'',
        ''Define success metrics'',
        ''Get stakeholder sign-off'']),
     (''development'', [
        ''Set up repository and branching strategy'',
        ''Configure development environment'',
        ''Install pre-commit hooks'',
        ''Implement core features'',
        ''Write inline documentation'',
        ''Conduct code reviews'',
        ''Maintain clean commit history'']),
     (''cicd'', [
        ''Set up CI pipeline (build + test)'',
        ''Configure linting and formatting checks'',
        ''Add security scanning (SAST)'',
        ''Set up artifact publishing'',
        ''Configure branch protection rules'',
        ''Add deployment pipeline'',
        ''Test pipeline end-to-end'']),
     (''testing'', [
        ''Write unit tests (>80% coverage target)'',
        ''Write integration tests for critical paths'',
        ''Set up E2E test suite'',
        ''Run regression tests'',
        ''Conduct performance/load testing'',
        ''Fix all critical/high severity bugs'',
        ''Generate test coverage report'']),
     (''uat'', [
        ''Create UAT test plan from user stories'',
        ''Set up UAT environment'',
        ''Brief stakeholders on testing scope'',
        ''Execute UAT test cases'',
        ''Collect and triage feedback'',
        ''Fix blocking issues'',
        ''Obtain stakeholder sign-off'']),
     (''deployment'', [
        ''Create deployment runbook'',
        ''Set up feature flags (if applicable)'',
        ''Configure deployment strategy'',
        ''Run pre-deployment smoke tests'',
        ''Execute deployment'',
        ''Run post-deployment smoke tests'',
        ''Verify rollback procedure works'']),
     (''monitoring'', [
        ''Set up application metrics'',
        ''Configure log aggregation'',
        ''Define SLOs and error budgets'',
        ''Create alerting rules'',
        ''Set up dashboards'',
        ''Document incident response procedure'',
        ''Conduct game day / chaos testing''])]"

definition digit :: "nat \<Rightarrow> char" where
  "digit d = ''0123456789'' ! (d mod 10)"

fun str_of_nat :: "nat \<Rightarrow> string" where
  "str_of_nat n = (if n < 10 then [digit n] else str_of_nat (n div 10) @ [digit n])"

text \<open>\<^verbatim>\<open>f"{n:02d}"\<close>\<close>

definition fmt_02d :: "nat \<Rightarrow> string" where
  "fmt_02d n = (if n < 10 then CHR ''0'' # str_of_nat n else str_of_nat n)"

definition newline :: string where
  "newline = [CHR 0x0A]"

fun join :: "string \<Rightarrow> string list \<Rightarrow> string" where
  "join sep [] = []"
| "join sep [x] = x"
| "join sep (x # y # ys) = x @ sep @ join sep (y # ys)"

definition create_phase_checklist :: "string \<times> string \<times> nat \<Rightarrow> string" where
  "create_phase_checklist phase =
     (let items = (case map_of checklists (fst phase) of None \<Rightarrow> [] | Some xs \<Rightarrow> xs);
          lines = (''# Phase '' @ str_of_nat (snd (snd phase)) @ '': '' @ fst (snd phase) @ newline)
                  # map (\<lambda>item. ''- [ ] '' @ item) items
      in join newline lines @ newline)"

definition checklist_name :: "string \<times> string \<times> nat \<Rightarrow> string" where
  "checklist_name phase = fmt_02d (snd (snd phase)) @ ''-'' @ fst phase @ ''.md''"

text \<open>
  How a run ends early: an exception leaves it, or it calls \<^verbatim>\<open>sys.exit\<close>. The tree
  is returned in every case, since the writes made before an exit stay.
\<close>

datatype abort = Raise py_error | Exit int

fun write_checklists :: "(string \<times> string \<times> nat) list \<Rightarrow> node \<Rightarrow> (abort + unit) \<times> node" where
  "write_checklists [] out = (Inr (), out)"
| "write_checklists (phase # rest) out =
     (case write_text [''.sdlc'', ''phases'', checklist_name phase]
             (create_phase_checklist phase) out of
        Inl e \<Rightarrow> (Inl (Raise e), out)
      | Inr out' \<Rightarrow> write_checklists rest out')"

text \<open>
  The loop that copies a template: an entry of the template directory is copied unless
  the output directory has an entry of that name.
\<close>

fun copy_template :: "(string \<times> node) list \<Rightarrow> (string \<times> node) list \<Rightarrow> (string \<times> node) list" where
  "copy_template [] es = es"
| "copy_template (item # items) es =
     (if map_of es (fst item) \<noteq> None then copy_template items es
      else copy_template items (AList.update (fst item) (snd item) es))"

text \<open>
  \<^verbatim>\<open>init_sdlc(project_name, output_dir, template)\<close>; \<open>templates\<close> is the tree at
  \<^verbatim>\<open>TEMPLATES_DIR\<close> and \<open>now\<close> the clock's text.
\<close>

definition init_sdlc ::
  "env \<Rightarrow> string \<Rightarrow> node \<Rightarrow> string \<Rightarrow> node \<Rightarrow> string option \<Rightarrow> (abort + unit) \<times> node" where
  "init_sdlc E now templates project_name output_dir template =
     (if path_exists output_dir [''.sdlc''] then (Inl (Exit 1), output_dir)
      else case mkdir True [''.sdlc''] output_dir of
        Inl e \<Rightarrow> (Inl (Raise e), output_dir)
      | Inr d1 \<Rightarrow>
       (case mkdir False [''.sdlc'', ''phases''] d1 of
          Inl e \<Rightarrow> (Inl (Raise e), d1)
        | Inr d2 \<Rightarrow>
         (case write_text state_path (json_dump E (create_state project_name now)) d2 of
            Inl e \<Rightarrow> (Inl (Raise e), d2)
          | Inr d3 \<Rightarrow>
           (case write_checklists PHASES d3 of
              (Inl a, d4) \<Rightarrow> (Inl a, d4)
            | (Inr u, d4) \<Rightarrow>
                (case template of
                   None \<Rightarrow> (Inr (), d4)
                 | Some t \<Rightarrow>
                    (case map_of TEMPLATE_MAP t of
                       None \<Rightarrow> (Inl (Exit 1), d4)
                     | Some template_name \<Rightarrow>
                        (case (lookup templates [template_name], d4) of
                           (None, d) \<Rightarrow> (Inl (Exit 1), d4)
                         | (Some (File u), d) \<Rightarrow> (Inl (Raise NotADirectoryError), d4)
                         | (Some (Dir items), File u) \<Rightarrow> (Inl (Raise NotADirectoryError), d4)
                         | (Some (Dir items), Dir es) \<Rightarrow>
                             (Inr (), Dir (copy_template items es)))))))))"

section \<open>The state store of orchestrate.py\<close>

text \<open>
  \<^verbatim>\<open>load_state\<close> of orchestrate.py is, line for line, the function of
  gate\_validator.py above. \<^verbatim>\<open>save_state\<close> changes the state object it is given
  (\<^verbatim>\<open>updated_at\<close>) before it writes, so the model returns both the tree and the state;
  \<open>now\<close> is the clock's text.
\<close>

definition py_setitem :: "json \<Rightarrow> string \<Rightarrow> json \<Rightarrow> py_error + json" where
  "py_setitem d k v =
     (case d of JObj kvs \<Rightarrow> Inr (JObj (AList.update k v kvs)) | _ \<Rightarrow> Inl TypeError)"

definition save_state :: "env \<Rightarrow> string \<Rightarrow> node \<Rightarrow> json \<Rightarrow> bool \<Rightarrow> py_error + (node \<times> json)" where
  "save_state E now project_dir state dry_run =
     (if dry_run then Inr (project_dir, state)
      else case py_setitem state ''updated_at'' (JStr now) of
        Inl e \<Rightarrow> Inl e
      | Inr state' \<Rightarrow>
         (case write_text state_path (json_dump E state') project_dir of
            Inl e \<Rightarrow> Inl e
          | Inr project_dir' \<Rightarrow> Inr (project_dir', state')))"

section \<open>orchestrate.py\<close>

text \<open>
  The store of the running orchestrator: the project tree, the lines waiting on
  standard input, how often the clock was read, and the two dicts that the handlers
  change in place (\<^verbatim>\<open>state\<close> and \<^verbatim>\<open>ctx\<close>). What is printed is left out. A step
  either returns a value or ends the run (\<^verbatim>\<open>sys.exit\<close> or an exception), and in both
  cases leaves a store behind.
\<close>

record world =
  fs :: node
  stdin :: "string list"
  ticks :: nat
  state :: json
  ctx :: "(string \<times> json) list"

type_synonym 'a io = "world \<Rightarrow> (abort + 'a) \<times> world"

definition return_io :: "'a \<Rightarrow> 'a io" where
  "return_io x w = (Inr x, w)"

definition bind_io :: "'a io \<Rightarrow> ('a \<Rightarrow> 'b io) \<Rightarrow> 'b io" where
  "bind_io m f w = (case m w of (Inl a, w') \<Rightarrow> (Inl a, w') | (Inr x, w') \<Rightarrow> f x w')"

definition then_io :: "'a io \<Rightarrow> 'b io \<Rightarrow> 'b io" where
  "then_io m k = bind_io m (\<lambda>x. k)"

definition raise_io :: "py_error \<Rightarrow> 'a io" where
  "raise_io e w = (Inl (Raise e), w)"

definition sys_exit :: "int \<Rightarrow> 'a io" where
  "sys_exit n w = (Inl (Exit n), w)"

definition lift_io :: "py_error + 'a \<Rightarrow> 'a io" where
  "lift_io r w = (case r of Inl e \<Rightarrow> (Inl (Raise e), w) | Inr x \<Rightarrow> (Inr x, w))"

definition modify_state :: "(json \<Rightarrow> py_error + json) \<Rightarrow> unit io" where
  "modify_state f w =
     (case f (state w) of Inl e \<Rightarrow> (Inl (Raise e), w) | Inr st \<Rightarrow> (Inr (), w\<lparr>state := st\<rparr>))"

definition utcnow :: "env \<Rightarrow> string io" where
  "utcnow E w = (Inr (utc_now E (ticks w)), w\<lparr>ticks := Suc (ticks w)\<rparr>)"

definition input_line :: "string io" where
  "input_line w =
     (case stdin w of [] \<Rightarrow> (Inl (Raise EOFError), w) | l # ls \<Rightarrow> (Inr l, w\<lparr>stdin := ls\<rparr>))"

definition exists_io :: "string list \<Rightarrow> bool io" where
  "exists_io p w = (Inr (path_exists (fs w) p), w)"

definition mkdir_io :: "string list \<Rightarrow> unit io" where
  "mkdir_io p w =
     (case mkdir True p (fs w) of Inl e \<Rightarrow> (Inl (Raise e), w) | Inr n \<Rightarrow> (Inr (), w\<lparr>fs := n\<rparr>))"

subsection \<open>State management\<close>

definition do_load_state :: "env \<Rightarrow> json io" where
  "do_load_state E w = lift_io (load_state E (fs w)) w"

definition do_save_state :: "env \<Rightarrow> bool \<Rightarrow> unit io" where
  "do_save_state E dry_run w =
     (case save_state E (utc_now E (ticks w)) (fs w) (state w) dry_run of
        Inl e \<Rightarrow> (Inl (Raise e), w)
      | Inr (project_dir', state') \<Rightarrow>
          (Inr (), w\<lparr>fs := project_dir', state := state',
                     ticks := (if dry_run then ticks w else Suc (ticks w))\<rparr>))"

text \<open>\<^verbatim>\<open>d[k]\<close>: KeyError for a missing key, TypeError for what is not a dict.\<close>

definition py_getitem :: "json \<Rightarrow> string \<Rightarrow> py_error + json" where
  "py_getitem d k =
     (case d of
        JObj kvs \<Rightarrow> (case map_of kvs k of None \<Rightarrow> Inl KeyError | Some v \<Rightarrow> Inr v)
      | _ \<Rightarrow> Inl TypeError)"

text \<open>\<^verbatim>\<open>state["phases"][phase][k] = v\<close>\<close>

definition set_phase_field :: "json \<Rightarrow> string \<Rightarrow> string \<Rightarrow> json \<Rightarrow> py_error + json" where
  "set_phase_field st phase k v =
     (case py_getitem st ''phases'' of
        Inl e \<Rightarrow> Inl e
      | Inr phases \<Rightarrow>
         (case py_getitem phases phase of
            Inl e \<Rightarrow> Inl e
          | Inr phase_data \<Rightarrow>
             (case py_setitem phase_data k v of
                Inl e \<Rightarrow> Inl e
              | Inr phase_data' \<Rightarrow>
                 (case py_setitem phases phase phase_data' of
                    Inl e \<Rightarrow> Inl e
                  | Inr phases' \<Rightarrow> py_setitem st ''phases'' phases'))))"

text \<open>
  \<^verbatim>\<open>if note not in notes: notes.append(note)\<close>, for whatever value the record holds
  under \<^verbatim>\<open>notes\<close>.
\<close>

definition append_note :: "json \<Rightarrow> string \<Rightarrow> py_error + json" where
  "append_note notes note =
     (case notes of
        JArr xs \<Rightarrow> Inr (if JStr note \<in> set xs then JArr xs else JArr (xs @ [JStr note]))
      | JStr t \<Rightarrow> (if str_in note t then Inr (JStr t) else Inl AttributeError)
      | JObj kvs \<Rightarrow> (if note \<in> set (map fst kvs) then Inr (JObj kvs) else Inl AttributeError)
      | _ \<Rightarrow> Inl TypeError)"

definition add_note :: "json \<Rightarrow> string \<Rightarrow> string \<Rightarrow> py_error + json" where
  "add_note st phase note =
     (case py_getitem st ''phases'' of
        Inl e \<Rightarrow> Inl e
      | Inr phases \<Rightarrow>
         (case py_getitem phases phase of
            Inl e \<Rightarrow> Inl e
          | Inr phase_data \<Rightarrow>
             (case py_get phase_data ''notes'' (JArr []) of
                Inl e \<Rightarrow> Inl e
              | Inr notes \<Rightarrow>
                 (case append_note notes note of
                    Inl e \<Rightarrow> Inl e
                  | Inr notes' \<Rightarrow> set_phase_field st phase ''notes'' notes'))))"

definition mark_started :: "env \<Rightarrow> string \<Rightarrow> unit io" where
  "mark_started E phase =
     then_io (modify_state (\<lambda>st. set_phase_field st phase ''status'' (JStr ''in_progress'')))
    (bind_io (utcnow E) (\<lambda>now.
     then_io (modify_state (\<lambda>st. set_phase_field st phase ''started_at'' (JStr now)))
             (modify_state (\<lambda>st. py_setitem st ''current_phase'' (JStr phase)))))"

definition mark_completed :: "env \<Rightarrow> string \<Rightarrow> unit io" where
  "mark_completed E phase =
     then_io (modify_state (\<lambda>st. set_phase_field st phase ''status'' (JStr ''completed'')))
    (bind_io (utcnow E) (\<lambda>now.
     then_io (modify_state (\<lambda>st. set_phase_field st phase ''completed_at'' (JStr now)))
             (modify_state (\<lambda>st. set_phase_field st phase ''gate_passed'' (JBool True)))))"

subsection \<open>Utilities\<close>

definition prompt :: "string \<Rightarrow> string \<Rightarrow> string io" where
  "prompt question dflt =
     bind_io input_line (\<lambda>l. return_io (let answer = strip l in
                                         if answer \<noteq> [] then answer else dflt))"

definition prompt_yn :: "string \<Rightarrow> string \<Rightarrow> bool io" where
  "prompt_yn question dflt =
     bind_io (prompt (question @ '' (y/n)'') dflt)
       (\<lambda>answer. return_io (prefix ''y'' (lower answer)))"

text \<open>The loop of \<^verbatim>\<open>prompt_choice\<close>, over the lines still to be read.\<close>

fun read_choice :: "string list \<Rightarrow> string \<Rightarrow> string list \<Rightarrow> (abort + string) \<times> string list" where
  "read_choice choices dflt [] = (Inl (Raise EOFError), [])"
| "read_choice choices dflt (l # ls) =
     (let answer = (if strip l \<noteq> [] then strip l else dflt) in
      if answer \<in> set choices then (Inr answer, ls) else read_choice choices dflt ls)"

definition prompt_choice :: "string \<Rightarrow> string list \<Rightarrow> string \<Rightarrow> string io" where
  "prompt_choice question choices dflt w =
     (case read_choice choices dflt (stdin w) of (r, ls) \<Rightarrow> (r, w\<lparr>stdin := ls\<rparr>))"

definition run_script :: "env \<Rightarrow> string list \<Rightarrow> bool \<Rightarrow> int io" where
  "run_script E cmd dry_run w =
     (if dry_run then (Inr 0, w)
      else case subprocess_run E cmd (fs w, stdin w) of
             ((tree, ls), returncode) \<Rightarrow> (Inr returncode, w\<lparr>fs := tree, stdin := ls\<rparr>))"

text \<open>
  \<^verbatim>\<open>run_gate\<close> starts gate\_validator.py with \<^verbatim>\<open>--phase\<close> on the project directory and
  tests its return code; that script is \<open>gate_main\<close> above.
\<close>

definition run_gate :: "env \<Rightarrow> string \<Rightarrow> bool \<Rightarrow> bool io" where
  "run_gate E phase dry_run w =
     (if dry_run then (Inr True, w)
      else (Inr (exit_status (gate_main E
                 \<lparr>phase_opt = Some phase, all_opt = False, json_output = False\<rparr> (fs w)) = 0), w))"

definition write_file :: "string list \<Rightarrow> string \<Rightarrow> bool \<Rightarrow> unit io" where
  "write_file path content dry_run w =
     (if dry_run then (Inr (), w)
      else case mkdir True (butlast path) (fs w) of
        Inl e \<Rightarrow> (Inl (Raise e), w)
      | Inr tree \<Rightarrow>
         (case write_text path content tree of
            Inl e \<Rightarrow> (Inl (Raise e), w\<lparr>fs := tree\<rparr>)
          | Inr tree' \<Rightarrow> (Inr (), w\<lparr>fs := tree'\<rparr>)))"

subsection \<open>The handler of the testing phase\<close>

definition run_testing :: "env \<Rightarrow> bool \<Rightarrow> unit io" where
  "run_testing E dry_run =
     bind_io (exists_io [''docs'', ''prd.md'']) (\<lambda>prd_exists.
     then_io
       (if prd_exists then
          bind_io (prompt_yn ''Generate test plan from PRD?'' ''y'') (\<lambda>yes.
            if yes then
              bind_io (run_script E
                [sys_executable E,
                 repo_root E @ ''/skills/04-testing/scripts/test_planner.py'',
                 ''--prd'', project_path E @ ''/docs/prd.md'',
                 ''--output'', project_path E @ ''/docs/test-plan.md''] dry_run)
                (\<lambda>rc. return_io ())
            else return_io ())
        else
          bind_io (exists_io [''docs'', ''test-plan.md'']) (\<lambda>plan_exists.
            if \<not> plan_exists then
              write_file [''docs'', ''test-plan.md'']
                (''# Test Plan'' @ newline @ newline @ ''## Unit Tests'' @ newline @ newline
                 @ ''## Integration Tests'' @ newline @ newline @ ''## E2E Tests'' @ newline)
                dry_run
            else return_io ()))
    (then_io
       (bind_io (exists_io [''tests'']) (\<lambda>tests_exists.
          if \<not> tests_exists \<and> \<not> dry_run then
            then_io (mkdir_io [''tests''])
              (write_file [''tests'', ''test_placeholder.py'']
                 (''# Add your tests here'' @ newline @ ''def test_placeholder():'' @ newline
                  @ ''    assert True'' @ newline) dry_run)
          else return_io ()))
    (bind_io (prompt ''Path to coverage report (leave blank to skip)'' []) (\<lambda>coverage_path.
     then_io
       (if coverage_path \<noteq> [] then
          bind_io (prompt ''Coverage threshold (%)'' ''80'') (\<lambda>threshold.
            bind_io (run_script E
              [sys_executable E,
               repo_root E @ ''/skills/04-testing/scripts/coverage_analyzer.py'',
               ''--report'', coverage_path,
               ''--threshold'', threshold] dry_run)
              (\<lambda>rc. return_io ()))
        else
          bind_io (exists_io [''coverage'']) (\<lambda>coverage_exists.
            if \<not> coverage_exists then
              then_io (mkdir_io [''coverage''])
                (write_file [''coverage'', ''placeholder.txt'']
                   (''# Run your test suite with coverage to generate a real report'' @ newline)
                   dry_run)
            else return_io ()))
    (then_io
       (bind_io (prompt_yn ''Does test coverage meet the threshold (>=80%)?'' ''n'') (\<lambda>yes.
          if yes then modify_state (\<lambda>st. add_note st ''testing'' ''Coverage meets threshold of 80%'')
          else return_io ()))
       (bind_io (prompt_yn ''Are all critical/high-severity bugs resolved?'' ''n'') (\<lambda>yes.
          if yes then modify_state (\<lambda>st. add_note st ''testing'' ''All critical bugs resolved'')
          else return_io ())))))))"

subsection \<open>Main orchestration loop\<close>

text \<open>
  \<^verbatim>\<open>phase_data.get("status") == "completed" and phase_data.get("gate_passed")\<close> for
  \<^verbatim>\<open>phase_data = state["phases"][phase]\<close>.
\<close>

definition phase_completed :: "json \<Rightarrow> string \<Rightarrow> py_error + bool" where
  "phase_completed st phase =
     (case py_getitem st ''phases'' of
        Inl e \<Rightarrow> Inl e
      | Inr phases \<Rightarrow>
         (case py_getitem phases phase of
            Inl e \<Rightarrow> Inl e
          | Inr phase_data \<Rightarrow>
             (case py_get phase_data ''status'' JNull of
                Inl e \<Rightarrow> Inl e
              | Inr status \<Rightarrow>
                 (if status = JStr ''completed''
                  then (case py_get phase_data ''gate_passed'' JNull of
                          Inl e \<Rightarrow> Inl e
                        | Inr g \<Rightarrow> Inr (py_truthy g))
                  else Inr False))))"

text \<open>
  The gate check loop. Every turn that does not end the loop reads at least one line,
  and reading past the last line raises EOFError, so the loop ends on every input.
\<close>

lemma read_choice_shorter:
  "read_choice choices dflt ls = (Inr a, ls') \<Longrightarrow> length ls' < length ls"
  by (induction ls) (auto simp: Let_def split: if_splits)

function gate_check :: "env \<Rightarrow> bool \<Rightarrow> string \<Rightarrow> unit io" where
  "gate_check E dry_run phase w =
     (case run_gate E phase dry_run w of
        (Inl a, w1) \<Rightarrow> (Inl a, w1)
      | (Inr True, w1) \<Rightarrow>
          then_io (mark_completed E phase) (do_save_state E dry_run) w1
      | (Inr False, w1) \<Rightarrow>
         (case prompt_choice ''What would you like to do?''
                 [''retry'', ''fix'', ''skip'', ''quit''] ''retry'' w1 of
            (Inl a, w2) \<Rightarrow> (Inl a, w2)
          | (Inr action, w2) \<Rightarrow>
             (if action = ''quit'' then
                then_io (do_save_state E dry_run) (sys_exit 0) w2
              else if action = ''skip'' then
                then_io (mark_completed E phase) (do_save_state E dry_run) w2
              else if action = ''fix'' then
                (case input_line w2 of
                   (Inl a, w3) \<Rightarrow> (Inl a, w3)
                 | (Inr l, w3) \<Rightarrow> gate_check E dry_run phase w3)
              else gate_check E dry_run phase w2)))"
  by pat_completeness auto
termination
proof (relation "measure (\<lambda>(E, dry_run, phase, w). length (stdin w))")
  show "wf (measure (\<lambda>(E, dry_run, phase, w). length (stdin w)))"
    by simp
next
  fix E dry_run phase w x w1 r y w2 action w3 l
  fix xa :: "abort + string" and xb :: "abort + string"
  assume g: "(x, w1) = run_gate E phase dry_run w" and xr: "x = Inr r"
    and p: "(y, w2) = prompt_choice ''What would you like to do?''
                         [''retry'', ''fix'', ''skip'', ''quit''] ''retry'' w1"
    and ya: "y = Inr action"
  from g have w1: "w1 = w"
    by (auto simp: run_gate_def split: if_splits)
  from p ya have "length (stdin w2) < length (stdin w1)"
    by (auto simp: prompt_choice_def split: prod.splits dest: read_choice_shorter)
  with w1 have lt: "length (stdin w2) < length (stdin w)"
    by simp
  {
    show "((E, dry_run, phase, w2), (E, dry_run, phase, w)) \<in>
            measure (\<lambda>(E, dry_run, phase, w). length (stdin w))"
      using lt by simp
  }
  {
    fix z
    assume "(z, w3) = input_line w2" and "z = Inr l"
    then have "length (stdin w3) \<le> length (stdin w2)"
      by (auto simp: input_line_def split: list.splits)
    with lt show "((E, dry_run, phase, w3), (E, dry_run, phase, w)) \<in>
            measure (\<lambda>(E, dry_run, phase, w). length (stdin w))"
      by simp
  }
qed

text \<open>
  The table \<^verbatim>\<open>PHASE_HANDLERS\<close> is an argument \<open>H\<close> of the loop: \<open>H phase dry_run\<close> is the
  call \<^verbatim>\<open>PHASE_HANDLERS[phase](state, project_dir, ctx, dry_run)\<close>, with \<open>run_testing\<close>
  above the entry for the testing phase.
\<close>

definition visit_phase :: "env \<Rightarrow> (string \<Rightarrow> bool \<Rightarrow> unit io) \<Rightarrow> bool \<Rightarrow> nat \<Rightarrow> unit io" where
  "visit_phase E H dry_run idx =
     (let phase = PHASE_ORDER ! idx in
      bind_io (\<lambda>w. lift_io (phase_completed (state w) phase) w) (\<lambda>completed.
        if completed then return_io ()
        else
          then_io (mark_started E phase)
         (then_io (do_save_state E dry_run)
         (then_io (H phase dry_run)
         (then_io (do_save_state E dry_run)
         (then_io (gate_check E dry_run phase)
           (if idx + 1 < length PHASE_ORDER then
              then_io (modify_state (\<lambda>st. py_setitem st ''current_phase''
                                             (JStr (PHASE_ORDER ! (idx + 1)))))
                      (do_save_state E dry_run)
            else return_io ())))))))"

function walk :: "env \<Rightarrow> (string \<Rightarrow> bool \<Rightarrow> unit io) \<Rightarrow> bool \<Rightarrow> nat \<Rightarrow> unit io" where
  "walk E H dry_run idx w =
     (if idx < length PHASE_ORDER then
        (case visit_phase E H dry_run idx w of
           (Inl a, w') \<Rightarrow> (Inl a, w')
         | (Inr u, w') \<Rightarrow> walk E H dry_run (Suc idx) w')
      else (Inr (), w))"
  by pat_completeness auto
termination
  by (relation "measure (\<lambda>(E, H, dry_run, idx, w). length PHASE_ORDER - idx)") auto

record orch_args =
  start_from :: "string option"
  dry_run_opt :: bool

definition synthetic_state :: "string \<Rightarrow> json" where
  "synthetic_state project_name = JObj [
     (''project_name'', JStr project_name),
     (''current_phase'', JStr ''requirements''),
     (''phases'', JObj (map (\<lambda>p. (p, JObj [
         (''status'', JStr ''pending''), (''gate_passed'', JBool False), (''notes'', JArr []),
         (''started_at'', JNull), (''completed_at'', JNull)])) PHASE_ORDER))]"

text \<open>\<^verbatim>\<open>PHASE_ORDER.index(x)\<close>\<close>

fun index_of :: "json list \<Rightarrow> json \<Rightarrow> py_error + nat" where
  "index_of [] x = Inl ValueError"
| "index_of (y # ys) x =
     (if y = x then Inr 0
      else (case index_of ys x of Inl e \<Rightarrow> Inl e | Inr i \<Rightarrow> Inr (Suc i)))"

definition set_state :: "json \<Rightarrow> unit io" where
  "set_state st w = (Inr (), w\<lparr>state := st\<rparr>)"

definition orch_main :: "env \<Rightarrow> (string \<Rightarrow> bool \<Rightarrow> unit io) \<Rightarrow> orch_args \<Rightarrow> unit io" where
  "orch_main E H a =
     (let dry_run = dry_run_opt a in
      bind_io (do_load_state E) (\<lambda>loaded.
      then_io
        (if loaded = JNull then
           bind_io (prompt ''Project name'' []) (\<lambda>project_name.
           bind_io (prompt_choice ''Use a project template?''
                      [''none'', ''react-vite'', ''fastapi'', ''nextjs''] ''none'') (\<lambda>template.
           then_io (run_script E
                      ([sys_executable E, repo_root E @ ''/scripts/init_sdlc.py'',
                        ''--project-name'', project_name,
                        ''--output-dir'', project_path E]
                       @ (if template \<noteq> ''none'' then [''--template'', template] else []))
                      dry_run)
          (bind_io (do_load_state E) (\<lambda>reloaded.
             if reloaded = JNull then
               (if dry_run then set_state (synthetic_state project_name) else sys_exit 1)
             else set_state reloaded))))
         else set_state loaded)
     (bind_io (\<lambda>w. lift_io (py_get (state w) ''project_name'' (JStr ''my-project'')) w)
        (\<lambda>project_name.
      then_io (\<lambda>w. (Inr (), w\<lparr>ctx := [(''project_name'', project_name),
                                        (''project_type'', JStr ''python'')]\<rparr>))
     (bind_io (\<lambda>w. case start_from a of
                      Some p \<Rightarrow> (Inr (JStr p), w)
                    | None \<Rightarrow> lift_io (py_get (state w) ''current_phase''
                                          (JStr ''requirements'')) w)
        (\<lambda>start_phase.
      bind_io (lift_io (index_of (map JStr PHASE_ORDER) start_phase)) (\<lambda>start_idx.
        walk E H dry_run start_idx)))))))"

text \<open>
  The handlers around \<^verbatim>\<open>main()\<close> at the bottom of the script: the exit status, and
  what the operator is told.
\<close>

datatype report = Completed | Stopped | Interrupted | CorruptStateAdvice | Traceback py_error

definition orchestrate_cli ::
  "env \<Rightarrow> (string \<Rightarrow> bool \<Rightarrow> unit io) \<Rightarrow> orch_args \<Rightarrow> world \<Rightarrow> (int \<times> report) \<times> world" where
  "orchestrate_cli E H a w =
     (case orch_main E H a w of
        (Inr u, w') \<Rightarrow> ((0, Completed), w')
      | (Inl (Exit n), w') \<Rightarrow> ((n, Stopped), w')
      | (Inl (Raise e), w') \<Rightarrow>
          (if e = KeyboardInterrupt then ((130, Interrupted), w')
           else if e = JSONDecodeError then ((1, CorruptStateAdvice), w')
           else ((1, Traceback e), w')))"

section \<open>Sample environment and projects\<close>

text \<open>
  A small environment for running the definitions on concrete projects: its
  \<^verbatim>\<open>json\<close> knows two documents by their text, its child processes change nothing and
  return 0.
\<close>

definition demo_now :: string where
  "demo_now = ''2024-01-01T00:00:00+00:00''"

definition demo_later :: string where
  "demo_later = ''2024-01-02T00:00:00+00:00''"

definition demo_docs :: "(string \<times> json) list" where
  "demo_docs = [
     (''fresh state'', create_state ''Demo'' demo_now),
     (''saved state'', JObj [(''project_name'', JStr ''Demo''), (''updated_at'', JStr demo_later)])]"

definition demo_env :: env where
  "demo_env = \<lparr>
     json_load = map_of demo_docs,
     json_dump = (\<lambda>j. case find (\<lambda>d. snd d = j) demo_docs of None \<Rightarrow> ''null'' | Some d \<Rightarrow> fst d),
     subprocess_run = (\<lambda>cmd x. (x, 0)),
     utc_now = (\<lambda>n. if n = 0 then demo_now else demo_later),
     sys_executable = ''python3'',
     repo_root = ''/repo'',
     project_path = ''/project''\<rparr>"

text \<open>An empty directory after \<^verbatim>\<open>init_sdlc.py --project-name Demo\<close>.\<close>

definition fresh_project :: node where
  "fresh_project = snd (init_sdlc demo_env demo_now (Dir []) ''Demo'' (Dir []) None)"

text \<open>A project whose state file does not hold JSON.\<close>

definition corrupt_project :: node where
  "corrupt_project = Dir [(''.sdlc'', Dir [(''state.json'', File ''not json'')])]"

text \<open>The store at the start of a run in an empty directory, with three empty lines typed.\<close>

definition blank_world :: world where
  "blank_world = \<lparr>fs = Dir [], stdin = [[], [], []], ticks = 0,
                   state = synthetic_state ''Demo'', ctx = []\<rparr>"

text \<open>A handler table that stops the run if any handler is called.\<close>

definition no_handlers :: "string \<Rightarrow> bool \<Rightarrow> unit io" where
  "no_handlers phase dry_run = sys_exit 99"

definition finished_world :: world where
  "finished_world = \<lparr>fs = Dir [], stdin = [], ticks = 0,
     state = JObj [(''phases'', JObj [(''monitoring'',
               JObj [(''status'', JStr ''completed''), (''gate_passed'', JBool True)])])],
     ctx = []\<rparr>"

section \<open>Properties of the gate validator\<close>

lemmas gate_eval =
  validate_phase_def validate_phase_with_def criteria_of_def GATE_CRITERIA_def crit_def
  run_criterion_def CHECKERS_def str_arg_def arg_at_def check_file_def check_dir_def
  check_file_pattern_def check_any_file_def check_content_def check_state_note_def
  load_state_def state_path_def path_exists_def path_is_dir_def read_text_def rglob_def
  path_parts_def is_Dir_def py_truthy_def py_get_def py_iter_def note_has_def

lemmas demo_eval = demo_env_def demo_docs_def demo_now_def demo_later_def

lemma validate_criteria_acc:
  "validate_criteria E pd cs p f =
     (case validate_criteria E pd cs [] [] of
        Inl e \<Rightarrow> Inl e | Inr (p', f') \<Rightarrow> Inr (p @ p', f @ f'))"
proof (induction cs arbitrary: p f)
  case Nil
  show ?case by simp
next
  case (Cons c cs)
  show ?case
  proof (cases "run_criterion E pd c")
    case (Inl e)
    then show ?thesis by simp
  next
    case (Inr b)
    show ?thesis
    proof (cases b)
      case True
      with Inr show ?thesis
        using Cons.IH [of "p @ [description c]" f] Cons.IH [of "[description c]" "[]"]
        by (simp split: sum.splits prod.splits)
    next
      case False
      with Inr show ?thesis
        using Cons.IH [of p "f @ [description c]"] Cons.IH [of "[]" "[description c]"]
        by (simp split: sum.splits prod.splits)
    qed
  qed
qed

lemma validate_criteria_append:
  "validate_criteria E pd (xs @ ys) p f =
     (case validate_criteria E pd xs p f of
        Inl e \<Rightarrow> Inl e | Inr (p', f') \<Rightarrow> validate_criteria E pd ys p' f')"
  by (induction xs arbitrary: p f) (auto split: sum.splits bool.splits)

lemma validate_criteria_filter:
  "validate_criteria E pd cs p f = Inr (p', f') \<Longrightarrow>
     p' = p @ map description (filter (\<lambda>c. run_criterion E pd c = Inr True) cs) \<and>
     f' = f @ map description (filter (\<lambda>c. run_criterion E pd c = Inr False) cs) \<and>
     (\<forall>c \<in> set cs. run_criterion E pd c = Inr True \<or> run_criterion E pd c = Inr False)"
proof (induction cs arbitrary: p f)
  case Nil
  then show ?case by simp
next
  case (Cons c cs)
  show ?case
  proof (cases "run_criterion E pd c")
    case (Inl e)
    with Cons.prems show ?thesis by simp
  next
    case (Inr b)
    show ?thesis
    proof (cases b)
      case True
      with Inr Cons.prems have "validate_criteria E pd cs (p @ [description c]) f = Inr (p', f')"
        by simp
      from Cons.IH [OF this] Inr True show ?thesis by simp
    next
      case False
      with Inr Cons.prems have "validate_criteria E pd cs p (f @ [description c]) = Inr (p', f')"
        by simp
      from Cons.IH [OF this] Inr False show ?thesis by simp
    qed
  qed
qed

text \<open>The validator returns its two lists exactly when no checker raises.\<close>

lemma validate_criteria_returns:
  "(\<exists>p' f'. validate_criteria E pd cs p f = Inr (p', f')) \<longleftrightarrow>
     (\<forall>c \<in> set cs. \<exists>b. run_criterion E pd c = Inr b)"
  by (induction cs arbitrary: p f) (auto split: sum.splits bool.splits)

lemma distinct_descriptions: "distinct (map description (criteria_of GATE_CRITERIA ph))"
  by (simp add: criteria_of_def GATE_CRITERIA_def crit_def)

lemma filter_partition_disjoint:
  "distinct (map g cs) \<Longrightarrow>
     set (map g (filter P cs)) \<inter> set (map g (filter (\<lambda>c. \<not> P c) cs)) = {}"
  by (induction cs) auto




text \<open>
  C2. A criterion whose checker name is not in the checker table is classified as
  failed without raising, and the criteria before and after it in the same phase are
  evaluated as they would be without it: the result of the phase is the result of the
  criteria before it and of the criteria after it, with its description in the failed
  list between theirs.
\<close>

theorem unknown_checker_is_failed:
  assumes "CHECKERS (checker_name c) = None"
    and "map_of table phase = Some (xs @ c # ys)"
  shows "run_criterion E pd c = Inr False
       \<and> validate_phase_with table E phase pd =
          (case validate_criteria E pd xs [] [] of
             Inl e \<Rightarrow> Inl e
           | Inr (p1, f1) \<Rightarrow>
              (case validate_criteria E pd ys [] [] of
                 Inl e \<Rightarrow> Inl e
               | Inr (p2, f2) \<Rightarrow> Inr (p1 @ p2, f1 @ description c # f2)))"
proof -
  have r: "run_criterion E pd c = Inr False"
    using assms(1) by (simp add: run_criterion_def)
  have "validate_criteria E pd (xs @ c # ys) [] [] =
          (case validate_criteria E pd xs [] [] of
             Inl e \<Rightarrow> Inl e
           | Inr (p1, f1) \<Rightarrow> validate_criteria E pd ys p1 (f1 @ [description c]))"
    by (simp add: validate_criteria_append r split: sum.splits)
  also have "\<dots> = (case validate_criteria E pd xs [] [] of
             Inl e \<Rightarrow> Inl e
           | Inr (p1, f1) \<Rightarrow>
              (case validate_criteria E pd ys [] [] of
                 Inl e \<Rightarrow> Inl e
               | Inr (p2, f2) \<Rightarrow> Inr (p1 @ p2, f1 @ description c # f2)))"
    by (auto split: sum.splits
        simp: validate_criteria_acc [of E pd ys "p1 :: string list" "f1 @ [description c]" for p1 f1])
  finally show ?thesis
    using r assms(2) by (simp add: validate_phase_with_def criteria_of_def)
qed

theorem unknown_checker_is_failed_witness:
  "CHECKERS (checker_name (crit ''Licence reviewed'' ''check_licence'' [])) = None
   \<and> validate_phase_with
       [(''development'',
         [crit ''README exists'' ''check_file'' [Str ''README.md''],
          crit ''Licence reviewed'' ''check_licence'' [],
          crit ''Git repository initialized'' ''check_dir'' [Str ''.git'']])]
       demo_env ''development'' (Dir [(''README.md'', File ''# Demo'')])
     = Inr ([''README exists''], [''Licence reviewed'', ''Git repository initialized''])"
proof -
  let ?c = "crit ''Licence reviewed'' ''check_licence'' []"
  let ?xs = "[crit ''README exists'' ''check_file'' [Str ''README.md'']]"
  let ?ys = "[crit ''Git repository initialized'' ''check_dir'' [Str ''.git'']]"
  let ?table = "[(''development'', ?xs @ ?c # ?ys)]"
  have u: "CHECKERS (checker_name ?c) = None"
    by (simp add: CHECKERS_def crit_def)
  have t: "map_of ?table ''development'' = Some (?xs @ ?c # ?ys)"
    by simp
  show ?thesis
    using u unknown_checker_is_failed [OF u t, of demo_env "Dir [(''README.md'', File ''# Demo'')]"]
    by (simp add: gate_eval)
qed

text \<open>
  C4 (the code differs). The file-exists checker answers true for a path that exists
  as a directory: \<^verbatim>\<open>check_file\<close> tests \<^verbatim>\<open>exists()\<close>, not \<^verbatim>\<open>is_file()\<close>.
\<close>

theorem check_file_accepts_directory:
  "check_file (Dir [(''README.md'', Dir [])]) ''README.md'' = True
   \<and> check_dir (Dir [(''README.md'', Dir [])]) ''README.md'' = True"
  by (simp add: check_file_def check_dir_def path_parts_def path_exists_def path_is_dir_def)

text \<open>
  C10. Whenever \<^verbatim>\<open>validate_phase\<close> returns, its two lists partition the criteria
  registered for the phase: passed holds, in registry order, the descriptions of the
  criteria whose checker answered true, failed those whose checker answered false; the
  lengths add up to the number of criteria, and no description is in both lists.
\<close>

theorem validate_phase_partition:
  assumes "validate_phase E phase pd = Inr (passed, failed)"
  shows "passed = map description
                    (filter (\<lambda>c. run_criterion E pd c = Inr True) (criteria_of GATE_CRITERIA phase))
       \<and> failed = map description
                    (filter (\<lambda>c. run_criterion E pd c = Inr False) (criteria_of GATE_CRITERIA phase))
       \<and> length passed + length failed = length (criteria_of GATE_CRITERIA phase)
       \<and> set passed \<inter> set failed = {}
       \<and> set passed \<union> set failed = description ` set (criteria_of GATE_CRITERIA phase)"
proof -
  let ?cs = "criteria_of GATE_CRITERIA phase"
  let ?T = "\<lambda>c. run_criterion E pd c = Inr True"
  let ?F = "\<lambda>c. run_criterion E pd c = Inr False"
  from assms have v: "validate_criteria E pd ?cs [] [] = Inr (passed, failed)"
    by (simp add: validate_phase_def validate_phase_with_def)
  from validate_criteria_filter [OF v]
  have p: "passed = map description (filter ?T ?cs)"
    and f: "failed = map description (filter ?F ?cs)"
    and tot: "\<forall>c \<in> set ?cs. ?T c \<or> ?F c"
    by simp_all
  have FT: "filter ?F ?cs = filter (\<lambda>c. \<not> ?T c) ?cs"
    using tot by (intro filter_cong) auto
  have len: "length passed + length failed = length ?cs"
    unfolding p f FT by (simp add: sum_length_filter_compl)
  have dis: "set passed \<inter> set failed = {}"
    unfolding p f FT by (rule filter_partition_disjoint [OF distinct_descriptions])
  have un: "set passed \<union> set failed = description ` set ?cs"
    unfolding p f FT by auto
  from p f len dis un show ?thesis by blast
qed

theorem validate_phase_partition_witness:
  "validate_phase demo_env ''development'' (Dir [(''README.md'', File ''# Demo'')]) =
     Inr ([''README exists''],
          [''Git repository initialized'', ''Branching strategy documented'',
           ''Pre-commit hooks configured'', ''Code review process defined''])
   \<and> length [''README exists''] + length [''Git repository initialized'',
        ''Branching strategy documented'', ''Pre-commit hooks configured'',
        ''Code review process defined''] = length (criteria_of GATE_CRITERIA ''development'')"
proof -
  have v: "validate_phase demo_env ''development'' (Dir [(''README.md'', File ''# Demo'')]) =
     Inr ([''README exists''],
          [''Git repository initialized'', ''Branching strategy documented'',
           ''Pre-commit hooks configured'', ''Code review process defined''])"
    by (simp add: gate_eval)
  have "length [''README exists''] + length [''Git repository initialized'',
        ''Branching strategy documented'', ''Pre-commit hooks configured'',
        ''Code review process defined''] = length (criteria_of GATE_CRITERIA ''development'')"
    by (rule conjunct1 [OF conjunct2 [OF conjunct2 [OF validate_phase_partition [OF v]]]])
  with v show ?thesis by blast
qed

end
